theory Spec2Isabelle
  imports
    Complex_Main
    "HOL-Library.Char_ord"
    "HOL-Library.List_Lexorder"
    "HOL-Library.Option_ord"
    "HOL-Library.Product_Lexorder"
begin

section \<open>The property ledger of baulkandcastle\_scraper.py\<close>

text \<open>
  The tables of \<^verbatim>\<open>PropertyDB._init_db\<close> and the operations of \<^verbatim>\<open>PropertyDB\<close> on them.
  SQLite compares \<^verbatim>\<open>TEXT\<close> values bytewise (collation \<^verbatim>\<open>BINARY\<close>), a proper prefix being
  smaller; that is the lexicographic order on \<^typ>\<open>string\<close> with characters ordered by their
  code, which the imported orders provide. \<^verbatim>\<open>NULL\<close> is \<^const>\<open>None\<close>.
  Python's \<^verbatim>\<open>float\<close> and SQLite's \<^verbatim>\<open>REAL\<close> are read as exact real numbers.
\<close>

subsection \<open>Data\<close>

text \<open>
  \<^verbatim>\<open>PropertyListing\<close> (the dataclass), one field per attribute, prefixed with \<open>l_\<close> as the
  code writes \<^verbatim>\<open>l.id\<close>, \<^verbatim>\<open>l.status\<close>. The types are the declared ones: \<^verbatim>\<open>str\<close>, \<^verbatim>\<open>int\<close>,
  \<^verbatim>\<open>Optional[...]\<close>.
\<close>

record PropertyListing =
  l_id :: string
  l_address :: string
  l_suburb :: string
  l_price_display :: string
  l_price_value :: int
  l_bedrooms :: int
  l_bathrooms :: int
  l_parking :: int
  l_land_size :: "string option"
  l_property_type :: "string option"
  l_price_per_m2 :: "real option"
  l_url :: string
  l_agent :: string
  l_scraped_at :: string
  l_status :: string
  l_sold_date :: "string option"
  l_sold_date_iso :: "string option"
  l_first_seen :: "string option"

text \<open>
  A row of \<^verbatim>\<open>properties\<close> without its primary key \<^verbatim>\<open>property_id\<close>; the table is the map
  from the key to the row.
\<close>

record property_row =
  p_address :: string
  p_suburb :: string
  p_first_seen :: string
  p_url :: string
  p_in_excelsior_catchment :: int

text \<open>
  A row of \<^verbatim>\<open>listing_history\<close>, columns under their SQL names. The only writer is
  \<^verbatim>\<open>save_listings\<close>, which stores the fields of a \<^verbatim>\<open>PropertyListing\<close>, so each column has the
  type of the field stored in it. The table is the list of its rows in insertion order, and
  its \<^verbatim>\<open>PRIMARY KEY (property_id, date, status)\<close> is the function \<open>row_key\<close>.
\<close>

record history_row =
  property_id :: string
  date :: string
  status :: string
  price_display :: string
  price_value :: int
  beds :: int
  baths :: int
  cars :: int
  land_size :: "string option"
  property_type :: "string option"
  agent :: string
  scraped_at :: string
  sold_date :: "string option"
  sold_date_iso :: "string option"
  price_per_m2 :: "real option"

text \<open>
  \<^verbatim>\<open>xgboost_predictions\<close> (primary key \<^verbatim>\<open>property_id\<close>, written by
  \<^verbatim>\<open>save_xgboost_predictions\<close>) and the two tables of third-party estimates
  (\<^verbatim>\<open>domain_estimates\<close>, primary key \<^verbatim>\<open>property_id\<close>, and the append-only
  \<^verbatim>\<open>domain_estimates_history\<close>, both written by \<^verbatim>\<open>save_estimate\<close>), with the columns the
  accuracy report reads.
\<close>

record prediction_row =
  predicted_price :: "int option"
  predicted_at :: string

record estimate_row =
  e_property_id :: string
  estimate_mid :: "int option"
  e_scraped_at :: string

record db =
  properties :: "string \<rightharpoonup> property_row"
  listing_history :: "history_row list"
  xgboost_predictions :: "string \<rightharpoonup> prediction_row"
  domain_estimates :: "string \<rightharpoonup> estimate_row"
  domain_estimates_history :: "estimate_row list"

definition row_key :: "history_row \<Rightarrow> string \<times> string \<times> string" where
  "row_key r = (property_id r, date r, status r)"

subsection \<open>save\_listings\<close>

text \<open>The row both \<^verbatim>\<open>INSERT\<close> statements of \<^verbatim>\<open>save_listings\<close> build from a listing.\<close>

definition row_of :: "string \<Rightarrow> PropertyListing \<Rightarrow> history_row" where
  "row_of today_str l =
     \<lparr> property_id = l_id l, date = today_str, status = l_status l,
       price_display = l_price_display l, price_value = l_price_value l,
       beds = l_bedrooms l, baths = l_bathrooms l, cars = l_parking l,
       land_size = l_land_size l, property_type = l_property_type l,
       agent = l_agent l, scraped_at = l_scraped_at l,
       sold_date = l_sold_date l, sold_date_iso = l_sold_date_iso l,
       price_per_m2 = l_price_per_m2 l \<rparr>"

text \<open>
  \<^verbatim>\<open>SELECT 1 FROM listing_history WHERE property_id = ? AND status = 'sold' LIMIT 1\<close>,
  tested for a row.
\<close>

definition has_sold :: "history_row list \<Rightarrow> string \<Rightarrow> bool" where
  "has_sold hist pid = (\<exists>r \<in> set hist. property_id r = pid \<and> status r = ''sold'')"

text \<open>
  \<^verbatim>\<open>INSERT INTO listing_history\<close> appends the row. \<^verbatim>\<open>INSERT OR REPLACE\<close> first deletes the
  row that holds the same primary key, then appends.
\<close>

definition insert_row :: "history_row \<Rightarrow> history_row list \<Rightarrow> history_row list" where
  "insert_row r hist = hist @ [r]"

definition insert_or_replace :: "history_row \<Rightarrow> history_row list \<Rightarrow> history_row list" where
  "insert_or_replace r hist = filter (\<lambda>x. row_key x \<noteq> row_key r) hist @ [r]"

text \<open>
  The body of the loop of \<^verbatim>\<open>save_listings\<close> for one listing \<open>l\<close>: it returns the listing with
  \<^verbatim>\<open>first_seen\<close> assigned and the database after the statements. \<open>today_str\<close> is
  \<^verbatim>\<open>datetime.now().strftime('%Y-%m-%d')\<close>, read once before the loop.
\<close>

definition save_listing :: "string \<Rightarrow> PropertyListing \<Rightarrow> db \<Rightarrow> PropertyListing \<times> db" where
  "save_listing today_str l d =
     (let (l1, d1) =
        (case properties d (l_id l) of
           None \<Rightarrow>
             (l\<lparr>l_first_seen := Some today_str\<rparr>,
              d\<lparr>properties := (properties d)(l_id l \<mapsto>
                   \<lparr> p_address = l_address l, p_suburb = l_suburb l,
                     p_first_seen = today_str, p_url = l_url l,
                     p_in_excelsior_catchment = 0 \<rparr>)\<rparr>)
         | Some row \<Rightarrow> (l\<lparr>l_first_seen := Some (p_first_seen row)\<rparr>, d))
      in if l_status l = ''sold'' then
           if has_sold (listing_history d1) (l_id l) then (l1, d1)
           else (l1, d1\<lparr>listing_history := insert_row (row_of today_str l) (listing_history d1)\<rparr>)
         else (l1, d1\<lparr>listing_history :=
                 insert_or_replace (row_of today_str l) (listing_history d1)\<rparr>))"

fun save_listings :: "string \<Rightarrow> PropertyListing list \<Rightarrow> db \<Rightarrow> PropertyListing list \<times> db" where
  "save_listings today_str [] d = ([], d)"
| "save_listings today_str (l # ls) d =
     (let (l1, d1) = save_listing today_str l d;
          (ls1, d2) = save_listings today_str ls d1
      in (l1 # ls1, d2))"

subsection \<open>Values of SQL and Python\<close>

text \<open>
  \<^verbatim>\<open>MAX(col)\<close> over the selected rows: \<^verbatim>\<open>NULL\<close> when there is none.
\<close>

fun sql_max :: "'a::linorder list \<Rightarrow> 'a option" where
  "sql_max [] = None"
| "sql_max (x # xs) = (case sql_max xs of None \<Rightarrow> Some x | Some m \<Rightarrow> Some (max x m))"

text \<open>
  \<^verbatim>\<open>a != b\<close> of SQL on a nullable column: \<^verbatim>\<open>NULL\<close> when either side is, and a \<^verbatim>\<open>WHERE\<close>
  clause keeps a row only when its condition is true.
\<close>

definition sql_ne_true :: "'a option \<Rightarrow> 'a option \<Rightarrow> bool" where
  "sql_ne_true a b = (case (a, b) of (Some x, Some y) \<Rightarrow> x \<noteq> y | _ \<Rightarrow> False)"

text \<open>
  \<^verbatim>\<open>str.strip()\<close> and \<^verbatim>\<open>str.lower()\<close> on ASCII text: the whitespace of \<^verbatim>\<open>str.isspace\<close> below
  128 is 9 to 13 and 28 to 32, and the letters \<^verbatim>\<open>A\<close> to \<^verbatim>\<open>Z\<close> are 65 to 90. No proof below
  depends on which characters they are.
\<close>

definition py_isspace :: "char \<Rightarrow> bool" where
  "py_isspace c = (let n = (of_char c :: nat) in (9 \<le> n \<and> n \<le> 13) \<or> (28 \<le> n \<and> n \<le> 32))"

definition py_strip :: "string \<Rightarrow> string" where
  "py_strip s = rev (dropWhile py_isspace (rev (dropWhile py_isspace s)))"

definition py_lower_char :: "char \<Rightarrow> char" where
  "py_lower_char c =
     (let n = (of_char c :: nat) in if 65 \<le> n \<and> n \<le> 90 then char_of (n + 32) else c)"

definition py_lower :: "string \<Rightarrow> string" where
  "py_lower s = map py_lower_char s"

text \<open>
  \<^verbatim>\<open>d.get(k) or ''\<close> and \<^verbatim>\<open>d.get(k) or 0\<close>: the default replaces a missing or \<^verbatim>\<open>None\<close> value
  and a falsy one, which for a string is \<^verbatim>\<open>''\<close> and for an integer \<^verbatim>\<open>0\<close>.
\<close>

definition or_empty :: "string option \<Rightarrow> string" where
  "or_empty v = (case v of None \<Rightarrow> [] | Some s \<Rightarrow> if s = [] then [] else s)"

definition or_zero :: "int option \<Rightarrow> int" where
  "or_zero v = (case v of None \<Rightarrow> 0 | Some n \<Rightarrow> if n = 0 then 0 else n)"

subsection \<open>get\_daily\_changes\<close>

text \<open>
  One element of the list \<^verbatim>\<open>get_daily_changes\<close> returns: its \<^verbatim>\<open>'type'\<close> and its \<^verbatim>\<open>'data'\<close>,
  the selected columns. \<open>hrow\<close> is \<^verbatim>\<open>h.*\<close> (\<^verbatim>\<open>h_now.*\<close>); the \<open>old_\<close> columns exist in
  the second query only and are \<^const>\<open>None\<close> in a row of the first.
\<close>

datatype change_type = NEW | ADJUSTMENT

record daily_change =
  ctype :: change_type
  hrow :: history_row
  address :: string
  url :: string
  suburb :: string
  old_price :: "string option"
  old_status :: "string option"
  old_beds :: "int option"
  old_baths :: "int option"
  old_cars :: "int option"

text \<open>
  \<^verbatim>\<open>(SELECT MAX(date) FROM listing_history WHERE property_id = h_now.property_id AND date < ?)\<close>
\<close>

definition prev_date_of :: "history_row list \<Rightarrow> string \<Rightarrow> string \<Rightarrow> string option" where
  "prev_date_of hist pid target_date =
     sql_max [date x. x \<leftarrow> hist, property_id x = pid \<and> date x < target_date]"

text \<open>The disjunction of the second query. Only \<^verbatim>\<open>land_size\<close> is nullable.\<close>

definition differs :: "history_row \<Rightarrow> history_row \<Rightarrow> bool" where
  "differs h_now h_prev =
     (price_display h_now \<noteq> price_display h_prev
      \<or> status h_now \<noteq> status h_prev
      \<or> beds h_now \<noteq> beds h_prev
      \<or> baths h_now \<noteq> baths h_prev
      \<or> cars h_now \<noteq> cars h_prev
      \<or> sql_ne_true (land_size h_now) (land_size h_prev))"

text \<open>\<^verbatim>\<open>JOIN properties p ON h.property_id = p.property_id\<close>: the rows of \<open>p\<close> for one \<open>h\<close>.\<close>

definition join_property :: "db \<Rightarrow> history_row \<Rightarrow> property_row list" where
  "join_property d h = (case properties d (property_id h) of None \<Rightarrow> [] | Some p \<Rightarrow> [p])"

definition new_change :: "history_row \<Rightarrow> property_row \<Rightarrow> daily_change" where
  "new_change h p =
     \<lparr> ctype = NEW, hrow = h, address = p_address p, url = p_url p, suburb = p_suburb p,
       old_price = None, old_status = None, old_beds = None, old_baths = None,
       old_cars = None \<rparr>"

definition adjustment_change :: "history_row \<Rightarrow> property_row \<Rightarrow> history_row \<Rightarrow> daily_change" where
  "adjustment_change h_now p h_prev =
     \<lparr> ctype = ADJUSTMENT, hrow = h_now, address = p_address p, url = p_url p,
       suburb = p_suburb p,
       old_price = Some (price_display h_prev), old_status = Some (status h_prev),
       old_beds = Some (beds h_prev), old_baths = Some (baths h_prev),
       old_cars = Some (cars h_prev) \<rparr>"

definition get_daily_changes :: "db \<Rightarrow> string \<Rightarrow> daily_change list" where
  "get_daily_changes d target_date =
     (let hist = listing_history d in
      [new_change h p.
         h \<leftarrow> hist, p \<leftarrow> join_property d h,
         date h = target_date \<and> p_first_seen p = target_date]
      @
      [adjustment_change h_now p h_prev.
         h_now \<leftarrow> hist, p \<leftarrow> join_property d h_now, h_prev \<leftarrow> hist,
         property_id h_now = property_id h_prev
         \<and> date h_now = target_date
         \<and> Some (date h_prev) = prev_date_of hist (property_id h_now) target_date
         \<and> differs h_now h_prev])"

subsection \<open>get\_comprehensive\_daily\_changes\<close>

text \<open>
  A row of one of the five lists: the selected columns, and \<^verbatim>\<open>price_diff\<close>, the key the loop
  adds to a row whose two numeric prices are known.
\<close>

record change_row =
  c_hrow :: history_row
  c_address :: string
  c_url :: string
  c_suburb :: string
  c_old_price :: "string option"
  c_old_price_value :: "int option"
  price_diff :: "int option"

record comprehensive_changes =
  new :: "change_row list"
  sold :: "change_row list"
  disappeared :: "change_row list"
  price_changes :: "change_row list"
  guide_revealed :: "change_row list"

definition plain_row :: "history_row \<Rightarrow> property_row \<Rightarrow> change_row" where
  "plain_row h p =
     \<lparr> c_hrow = h, c_address = p_address p, c_url = p_url p, c_suburb = p_suburb p,
       c_old_price = None, c_old_price_value = None, price_diff = None \<rparr>"

definition pair_row :: "history_row \<Rightarrow> property_row \<Rightarrow> history_row \<Rightarrow> change_row" where
  "pair_row h_now p h_prev =
     \<lparr> c_hrow = h_now, c_address = p_address p, c_url = p_url p, c_suburb = p_suburb p,
       c_old_price = Some (price_display h_prev),
       c_old_price_value = Some (price_value h_prev), price_diff = None \<rparr>"

text \<open>\<^verbatim>\<open>SELECT MAX(date) FROM listing_history WHERE date < ?\<close>\<close>

definition prev_date :: "history_row list \<Rightarrow> string \<Rightarrow> string option" where
  "prev_date hist target_date = sql_max [date x. x \<leftarrow> hist, date x < target_date]"

text \<open>
  The rows of the fourth query: the pairs of a \<^verbatim>\<open>'sale'\<close> row on \<open>target_date\<close> and a
  \<^verbatim>\<open>'sale'\<close> row of the same property on \<open>pd\<close>. The second query's are the \<^verbatim>\<open>'sold'\<close> rows
  on \<open>target_date\<close> paired so.
\<close>

definition status_pairs :: "db \<Rightarrow> string \<Rightarrow> string \<Rightarrow> string \<Rightarrow> change_row list" where
  "status_pairs d now_status target_date pd =
     [pair_row h_now p h_prev.
        h_now \<leftarrow> listing_history d, p \<leftarrow> join_property d h_now, h_prev \<leftarrow> listing_history d,
        property_id h_now = property_id h_prev
        \<and> date h_now = target_date \<and> status h_now = now_status
        \<and> date h_prev = pd \<and> status h_prev = ''sale'']"

text \<open>
  The loop over the rows of the fourth query, on the two lists it appends to: a row goes to
  \<^verbatim>\<open>price_changes\<close>, to \<^verbatim>\<open>guide_revealed\<close>, or to neither.
\<close>

fun price_loop :: "change_row list \<Rightarrow> comprehensive_changes \<Rightarrow> comprehensive_changes" where
  "price_loop [] result = result"
| "price_loop (d # rows) result =
     (let old_price = py_strip (or_empty (c_old_price d));
          new_price = py_strip (or_empty (Some (price_display (c_hrow d))));
          old_val = or_zero (c_old_price_value d);
          new_val = or_zero (Some (price_value (c_hrow d)))
      in if py_lower old_price = py_lower new_price then price_loop rows result
         else if old_val > 0 \<and> new_val > 0 \<and> old_val \<noteq> new_val then
           price_loop rows
             (result\<lparr>price_changes :=
                 price_changes result @ [d\<lparr>price_diff := Some (new_val - old_val)\<rparr>]\<rparr>)
         else if old_val = 0 \<and> new_val > 0 then
           price_loop rows (result\<lparr>guide_revealed := guide_revealed result @ [d]\<rparr>)
         else if new_val = 0 \<and> old_val > 0 then
           price_loop rows (result\<lparr>price_changes := price_changes result @ [d]\<rparr>)
         else price_loop rows result)"

text \<open>
  \<^verbatim>\<open>if not prev_date\<close> holds for \<^verbatim>\<open>None\<close> and for the empty string; then only the \<^verbatim>\<open>'sale'\<close>
  rows of \<open>target_date\<close> are returned, as new.
\<close>

definition get_comprehensive_daily_changes :: "db \<Rightarrow> string \<Rightarrow> comprehensive_changes" where
  "get_comprehensive_daily_changes d target_date =
     (let hist = listing_history d;
          result = \<lparr> new = [], sold = [], disappeared = [], price_changes = [],
                     guide_revealed = [] \<rparr>
      in case prev_date hist target_date of
           None \<Rightarrow>
             result\<lparr>new := [plain_row h p. h \<leftarrow> hist, p \<leftarrow> join_property d h,
                              date h = target_date \<and> status h = ''sale'']\<rparr>
         | Some pd \<Rightarrow>
             if pd = [] then
               result\<lparr>new := [plain_row h p. h \<leftarrow> hist, p \<leftarrow> join_property d h,
                                date h = target_date \<and> status h = ''sale'']\<rparr>
             else
               price_loop (status_pairs d ''sale'' target_date pd)
                 (result
                   \<lparr>new := [plain_row h p. h \<leftarrow> hist, p \<leftarrow> join_property d h,
                              date h = target_date \<and> p_first_seen p = target_date],
                    sold := status_pairs d ''sold'' target_date pd,
                    disappeared :=
                      [plain_row h_prev p. h_prev \<leftarrow> hist, p \<leftarrow> join_property d h_prev,
                         date h_prev = pd \<and> status h_prev = ''sale''
                         \<and> \<not> (\<exists>h_now \<in> set hist.
                                 property_id h_now = property_id h_prev
                                 \<and> date h_now = target_date)]\<rparr>))"

subsection \<open>get\_prediction\_accuracy\_report\<close>

text \<open>
  \<^verbatim>\<open>datetime.now() - timedelta(days=days_back)\<close>. A date is its proleptic Gregorian ordinal
  (\<^verbatim>\<open>date.toordinal()\<close>: 1 for 0001-01-01, 3652059 for 9999-12-31); the time of day does not
  change in the subtraction. \<^verbatim>\<open>timedelta\<close> raises \<^verbatim>\<open>OverflowError\<close> for more than
  999999999 days in either direction, and the subtraction raises it when the result is
  outside the years 1 to 9999.
\<close>

datatype py_error = OverflowError

definition timedelta_days :: "int \<Rightarrow> py_error + int" where
  "timedelta_days days = (if \<bar>days\<bar> > 999999999 then Inl OverflowError else Inr days)"

definition datetime_sub :: "int \<Rightarrow> int \<Rightarrow> py_error + int" where
  "datetime_sub ordinal delta =
     (if 1 \<le> ordinal - delta \<and> ordinal - delta \<le> 3652059 then Inr (ordinal - delta)
      else Inl OverflowError)"

text \<open>
  \<^verbatim>\<open>round(x, 1)\<close>, read on exact numbers: the nearest multiple of one tenth, the even one
  from half way. \<^verbatim>\<open>round((estimate - sold_price) / sold_price * 100, 1)\<close> is \<open>error_pct\<close>.
\<close>

definition round1 :: "real \<Rightarrow> real" where
  "round1 x =
     (let y = x * 10; f = \<lfloor>y\<rfloor> in
      real_of_int
        (if y - real_of_int f < 1 / 2 then f
         else if y - real_of_int f > 1 / 2 then f + 1
         else if even f then f else f + 1) / 10)"

definition error_pct :: "int \<Rightarrow> int \<Rightarrow> real" where
  "error_pct estimate sold_price =
     round1 (real_of_int (estimate - sold_price) / real_of_int sold_price * 100)"

text \<open>
  \<^verbatim>\<open>ORDER BY key DESC LIMIT 1\<close>: a row with the greatest key, the first of the table among
  equal ones (SQLite leaves the choice among them open).
\<close>

fun latest_by :: "('a \<Rightarrow> 'k::linorder) \<Rightarrow> 'a list \<Rightarrow> 'a option" where
  "latest_by key [] = None"
| "latest_by key (x # xs) =
     (case latest_by key xs of
        None \<Rightarrow> Some x
      | Some y \<Rightarrow> if key x < key y then Some y else Some x)"

text \<open>
  The truth value of an integer that may be \<^verbatim>\<open>None\<close> (\<^verbatim>\<open>None\<close> and 0 are false), and
  \<^verbatim>\<open>s[:10] if s else None\<close>.
\<close>

definition truthy :: "int option \<Rightarrow> bool" where
  "truthy v = (case v of None \<Rightarrow> False | Some n \<Rightarrow> n \<noteq> 0)"

definition date_part :: "string \<Rightarrow> string option" where
  "date_part s = (if s = [] then None else Some (take 10 s))"

text \<open>A row of the first query: the columns it selects from \<^verbatim>\<open>p\<close> and \<^verbatim>\<open>h_sold\<close>.\<close>

record sold_row =
  s_property_id :: string
  s_address :: string
  s_suburb :: string
  s_sold_price :: int
  s_sold_date :: "string option"
  s_sold_date_iso :: "string option"
  s_record_date :: string
  s_beds :: int
  s_baths :: int
  s_cars :: int
  s_property_type :: "string option"

definition sold_row_of :: "history_row \<Rightarrow> property_row \<Rightarrow> sold_row" where
  "sold_row_of h p =
     \<lparr> s_property_id = property_id h, s_address = p_address p, s_suburb = p_suburb p,
       s_sold_price = price_value h, s_sold_date = sold_date h,
       s_sold_date_iso = sold_date_iso h, s_record_date = date h,
       s_beds = beds h, s_baths = baths h, s_cars = cars h,
       s_property_type = property_type h \<rparr>"

text \<open>
  \<^verbatim>\<open>SELECT DISTINCT ... WHERE h_sold.status = 'sold' AND h_sold.price_value > 0
  ORDER BY h_sold.sold_date_iso DESC, h_sold.date DESC\<close>. \<^verbatim>\<open>NULL\<close> is the least value of a
  column, as \<^const>\<open>None\<close> is of an option. There is no condition on a date.
\<close>

definition sold_properties :: "db \<Rightarrow> sold_row list" where
  "sold_properties d =
     rev (sort_key (\<lambda>s. (s_sold_date_iso s, s_record_date s))
       (remdups [sold_row_of h p. h \<leftarrow> listing_history d, p \<leftarrow> join_property d h,
                   status h = ''sold'' \<and> price_value h > 0]))"

text \<open>The dictionary \<^verbatim>\<open>comparison\<close>; the keys that are columns of a table too carry \<open>cmp_\<close>.\<close>

record comparison =
  cmp_property_id :: string
  cmp_address :: string
  cmp_suburb :: string
  sold_price :: int
  cmp_sold_date :: "string option"
  cmp_sold_date_iso :: string
  cmp_beds :: int
  cmp_baths :: int
  cmp_cars :: int
  cmp_property_type :: "string option"
  listed_price :: "int option"
  listed_display :: "string option"
  xgboost_price :: "int option"
  xgboost_date :: "string option"
  domain_estimate :: "int option"
  domain_date :: "string option"
  listed_error_pct :: "real option"
  xgboost_error_pct :: "real option"
  domain_error_pct :: "real option"

text \<open>
  The body of the loop over \<^verbatim>\<open>sold_properties\<close>, one step for each of the three sources:
  the latest \<^verbatim>\<open>'sale'\<close> row of the property, its row of \<^verbatim>\<open>xgboost_predictions\<close>, and its
  latest row of \<^verbatim>\<open>domain_estimates_history\<close> or, when it has none, its row of
  \<^verbatim>\<open>domain_estimates\<close>. A value is used when it is neither \<^verbatim>\<open>None\<close> nor 0. None of the
  queries has a condition on a date.
\<close>

definition with_listing :: "db \<Rightarrow> sold_row \<Rightarrow> comparison \<Rightarrow> comparison" where
  "with_listing d srow c =
     (case latest_by date
             [h \<leftarrow> listing_history d. property_id h = s_property_id srow \<and> status h = ''sale''] of
        None \<Rightarrow> c
      | Some lst \<Rightarrow>
          if price_value lst \<noteq> 0 \<and> price_value lst > 0 then
            c\<lparr>listed_price := Some (price_value lst),
              listed_display := Some (price_display lst),
              listed_error_pct := Some (error_pct (price_value lst) (s_sold_price srow))\<rparr>
          else c\<lparr>listed_display := Some (price_display lst)\<rparr>)"

definition with_xgboost :: "db \<Rightarrow> sold_row \<Rightarrow> comparison \<Rightarrow> comparison" where
  "with_xgboost d srow c =
     (case xgboost_predictions d (s_property_id srow) of
        None \<Rightarrow> c
      | Some xgb \<Rightarrow>
          (case predicted_price xgb of
             None \<Rightarrow> c
           | Some price \<Rightarrow>
               if price = 0 then c
               else c\<lparr>xgboost_price := Some price,
                      xgboost_date := date_part (predicted_at xgb),
                      xgboost_error_pct := Some (error_pct price (s_sold_price srow))\<rparr>))"

definition domain_row :: "db \<Rightarrow> string \<Rightarrow> estimate_row option" where
  "domain_row d prop_id =
     (case latest_by e_scraped_at
             [e \<leftarrow> domain_estimates_history d. e_property_id e = prop_id] of
        None \<Rightarrow> domain_estimates d prop_id
      | Some e \<Rightarrow> Some e)"

definition with_domain :: "db \<Rightarrow> sold_row \<Rightarrow> comparison \<Rightarrow> comparison" where
  "with_domain d srow c =
     (case domain_row d (s_property_id srow) of
        None \<Rightarrow> c
      | Some dom_row \<Rightarrow>
          (case estimate_mid dom_row of
             None \<Rightarrow> c
           | Some mid \<Rightarrow>
               if mid = 0 then c
               else c\<lparr>domain_estimate := Some mid,
                      domain_date := date_part (e_scraped_at dom_row),
                      domain_error_pct := Some (error_pct mid (s_sold_price srow))\<rparr>))"

definition or_record_date :: "string option \<Rightarrow> string \<Rightarrow> string" where
  "or_record_date iso_date record_date =
     (case iso_date of None \<Rightarrow> record_date | Some s \<Rightarrow> if s = [] then record_date else s)"

definition compare_sold :: "db \<Rightarrow> sold_row \<Rightarrow> comparison" where
  "compare_sold d srow =
     with_domain d srow (with_xgboost d srow (with_listing d srow
       \<lparr> cmp_property_id = s_property_id srow, cmp_address = s_address srow,
         cmp_suburb = s_suburb srow, sold_price = s_sold_price srow,
         cmp_sold_date = s_sold_date srow,
         cmp_sold_date_iso = or_record_date (s_sold_date_iso srow) (s_record_date srow),
         cmp_beds = s_beds srow, cmp_baths = s_baths srow, cmp_cars = s_cars srow,
         cmp_property_type = s_property_type srow,
         listed_price = None, listed_display = None, xgboost_price = None,
         xgboost_date = None, domain_estimate = None, domain_date = None,
         listed_error_pct = None, xgboost_error_pct = None, domain_error_pct = None \<rparr>))"

definition make_comparisons :: "db \<Rightarrow> comparison list" where
  "make_comparisons d =
     [c \<leftarrow> map (compare_sold d) (sold_properties d).
        truthy (listed_price c) \<or> truthy (xgboost_price c) \<or> truthy (domain_estimate c)]"

text \<open>The statistics of one source, from the list of its error percentages.\<close>

record source_stats =
  count :: nat
  total_error :: real
  errors :: "real list"
  mape :: "real option"
  median_error :: "real option"

definition source_stats_of :: "real option list \<Rightarrow> source_stats" where
  "source_stats_of pcts =
     (let es = [e. Some e \<leftarrow> pcts];
          n = length es;
          total = sum_list (map abs es);
          sorted_abs = sort (map abs es)
      in \<lparr> count = n, total_error = total, errors = es,
           mape = (if n > 0 then Some (round1 (total / real n)) else None),
           median_error = (if n > 0 then Some (sorted_abs ! (n div 2)) else None) \<rparr>)"

record accuracy_stats =
  total_sold :: nat
  with_comparisons :: nat
  listed :: source_stats
  xgboost :: source_stats
  domain :: source_stats

record accuracy_report =
  comparisons :: "comparison list"
  stats :: accuracy_stats

definition report_of :: "db \<Rightarrow> accuracy_report" where
  "report_of d =
     (let cs = make_comparisons d in
      \<lparr> comparisons = cs,
        stats = \<lparr> total_sold = length (sold_properties d), with_comparisons = length cs,
                  listed = source_stats_of (map listed_error_pct cs),
                  xgboost = source_stats_of (map xgboost_error_pct cs),
                  domain = source_stats_of (map domain_error_pct cs) \<rparr> \<rparr>)"

text \<open>
  The method itself. \<open>now\<close> is the date of \<^verbatim>\<open>datetime.now()\<close>. \<^verbatim>\<open>cutoff_date\<close> is computed
  first, and no statement after it reads it.
\<close>

definition get_prediction_accuracy_report :: "int \<Rightarrow> int \<Rightarrow> db \<Rightarrow> py_error + accuracy_report" where
  "get_prediction_accuracy_report now days_back d =
     (case timedelta_days days_back of
        Inl e \<Rightarrow> Inl e
      | Inr delta \<Rightarrow>
          (case datetime_sub now delta of
             Inl e \<Rightarrow> Inl e
           | Inr cutoff_date \<Rightarrow> Inr (report_of d)))"

text \<open>The values of \<^verbatim>\<open>days_back\<close> for which \<^verbatim>\<open>cutoff_date\<close> is a date.\<close>

definition cutoff_representable :: "int \<Rightarrow> int \<Rightarrow> bool" where
  "cutoff_representable now days_back \<longleftrightarrow>
     \<bar>days_back\<bar> \<le> 999999999 \<and> 1 \<le> now - days_back \<and> now - days_back \<le> 3652059"

subsection \<open>Vocabulary of the statements\<close>

text \<open>
  The two numeric prices and the two display strings the loop of
  \<^verbatim>\<open>get_comprehensive_daily_changes\<close> compares in a row, the properties named in its two
  price lists, and what it is for a row to be a property's latest for-sale row before a date.
\<close>

definition old_val :: "change_row \<Rightarrow> int" where
  "old_val c = or_zero (c_old_price_value c)"

definition new_val :: "change_row \<Rightarrow> int" where
  "new_val c = or_zero (Some (price_value (c_hrow c)))"

definition norm_display :: "string \<Rightarrow> string" where
  "norm_display s = py_lower (py_strip s)"

definition display_changed :: "change_row \<Rightarrow> bool" where
  "display_changed c =
     (norm_display (or_empty (c_old_price c))
        \<noteq> norm_display (or_empty (Some (price_display (c_hrow c)))))"

definition price_change_ids :: "db \<Rightarrow> string \<Rightarrow> string set" where
  "price_change_ids d t =
     (\<lambda>c. property_id (c_hrow c)) ` set (price_changes (get_comprehensive_daily_changes d t))"

definition guide_revealed_ids :: "db \<Rightarrow> string \<Rightarrow> string set" where
  "guide_revealed_ids d t =
     (\<lambda>c. property_id (c_hrow c)) ` set (guide_revealed (get_comprehensive_daily_changes d t))"

definition latest_sale_before :: "history_row list \<Rightarrow> history_row \<Rightarrow> string \<Rightarrow> bool" where
  "latest_sale_before hist h t \<longleftrightarrow>
     h \<in> set hist \<and> status h = ''sale'' \<and> date h < t
     \<and> (\<forall>x\<in>set hist. property_id x = property_id h \<and> status x = ''sale'' \<and> date x < t
           \<longrightarrow> date x \<le> date h)"

subsection \<open>Example ledgers\<close>

text \<open>
  The database after \<^verbatim>\<open>_init_db\<close> on a new file, a listing as the scraper builds it, and a
  ledger in which property \<^verbatim>\<open>P9\<close> was recorded sold on 2024-01-15.
\<close>

definition empty_db :: db where
  "empty_db = \<lparr> properties = Map.empty, listing_history = [], xgboost_predictions = Map.empty,
                domain_estimates = Map.empty, domain_estimates_history = [] \<rparr>"

definition listing :: "string \<Rightarrow> string \<Rightarrow> string \<Rightarrow> int \<Rightarrow> PropertyListing" where
  "listing pid st disp v =
     \<lparr> l_id = pid, l_address = ''1 Example St'', l_suburb = ''CASTLE HILL'',
       l_price_display = disp, l_price_value = v, l_bedrooms = 3, l_bathrooms = 2,
       l_parking = 1, l_land_size = None, l_property_type = Some ''house'',
       l_price_per_m2 = None, l_url = ''u'', l_agent = ''Domain'', l_scraped_at = ''t'',
       l_status = st, l_sold_date = None, l_sold_date_iso = None, l_first_seen = None \<rparr>"

definition sold_example :: db where
  "sold_example =
     snd (save_listings ''2024-01-15'' [listing ''P9'' ''sold'' ''$1,200,000'' 1200000] empty_db)"

text \<open>
  A ledger of two consecutive capture dates: \<^verbatim>\<open>P1\<close> changes its price, the guide of \<^verbatim>\<open>P2\<close>
  is revealed, the price of \<^verbatim>\<open>P3\<close> is hidden, and the display string of \<^verbatim>\<open>P4\<close> changes in
  letter case and trailing whitespace only. And a ledger of three capture dates in which
  \<^verbatim>\<open>P1\<close> is not observed on the second.
\<close>

definition two_days :: db where
  "two_days =
     snd (save_listings ''2024-01-02''
       [listing ''P1'' ''sale'' ''$1,050,000'' 1050000,
        listing ''P2'' ''sale'' ''Auction Guide $900,000'' 900000,
        listing ''P3'' ''sale'' ''Contact Agent'' 0,
        listing ''P4'' ''sale'' ''OFFERS OVER $1,500,000 '' 1500000]
       (snd (save_listings ''2024-01-01''
          [listing ''P1'' ''sale'' ''$1,000,000'' 1000000,
           listing ''P2'' ''sale'' ''Auction'' 0,
           listing ''P3'' ''sale'' ''$900,000'' 900000,
           listing ''P4'' ''sale'' ''Offers over $1,500,000'' 1500000]
          empty_db)))"


text \<open>
  Property \<^verbatim>\<open>P7\<close>, sold on 2024-06-01, with a third-party estimate of 2024-05-20, another
  of 2024-06-05 and a model prediction of 2024-06-10. And property \<^verbatim>\<open>P8\<close>, for sale on
  2024-05-30, sold on 2024-06-01 and seen for sale again on 2024-06-03.
\<close>

definition sold_listing :: "string \<Rightarrow> string \<Rightarrow> int \<Rightarrow> string \<Rightarrow> PropertyListing" where
  "sold_listing pid disp v iso_date = (listing pid ''sold'' disp v)\<lparr>l_sold_date_iso := Some iso_date\<rparr>"

definition look_ahead_db :: db where
  "look_ahead_db =
     (snd (save_listings ''2024-06-01'' [sold_listing ''P7'' ''$1,000,000'' 1000000 ''2024-06-01'']
        empty_db))
     \<lparr> xgboost_predictions :=
         [''P7'' \<mapsto> \<lparr> predicted_price = Some 1020000, predicted_at = ''2024-06-10T09:00:00'' \<rparr>],
       domain_estimates_history :=
         [\<lparr> e_property_id = ''P7'', estimate_mid = Some 980000,
            e_scraped_at = ''2024-05-20T08:00:00'' \<rparr>,
          \<lparr> e_property_id = ''P7'', estimate_mid = Some 950000,
            e_scraped_at = ''2024-06-05T08:00:00'' \<rparr>] \<rparr>"

definition relisted_db :: db where
  "relisted_db =
     snd (save_listings ''2024-06-03'' [listing ''P8'' ''sale'' ''$1,100,000'' 1100000]
       (snd (save_listings ''2024-06-01''
          [sold_listing ''P8'' ''$1,050,000'' 1050000 ''2024-06-01'']
          (snd (save_listings ''2024-05-30'' [listing ''P8'' ''sale'' ''$1,000,000'' 1000000]
             empty_db)))))"

section \<open>The rolling average of feature\_engineering.py\<close>

text \<open>
  A row of the data frame \<^verbatim>\<open>df\<close> with the three columns \<^verbatim>\<open>compute_rolling_avg_price_per_m2\<close>
  reads; \<^verbatim>\<open>NaN\<close> and \<^verbatim>\<open>NaT\<close> are \<^const>\<open>None\<close>. A time stamp is its number of nanoseconds
  since the epoch, and \<^verbatim>\<open>pd.Timedelta(days=n)\<close> is \<open>n\<close> days of 86400 seconds.
\<close>

record df_row =
  df_suburb :: "string option"
  df_price_per_m2 :: "real option"
  df_sold_date_parsed :: "int option"

definition timedelta_ns :: "int \<Rightarrow> int" where
  "timedelta_ns days = days * 86400000000000"

text \<open>\<^verbatim>\<open>str.upper()\<close> on ASCII text: the letters \<^verbatim>\<open>a\<close> to \<^verbatim>\<open>z\<close> are 97 to 122.\<close>

definition py_upper_char :: "char \<Rightarrow> char" where
  "py_upper_char c =
     (let n = (of_char c :: nat) in if 97 \<le> n \<and> n \<le> 122 then char_of (n - 32) else c)"

definition py_upper :: "string \<Rightarrow> string" where
  "py_upper s = map py_upper_char s"

text \<open>
  The conditions of the two masks, row by row. A comparison with \<^verbatim>\<open>NaN\<close> or \<^verbatim>\<open>NaT\<close> is
  false.
\<close>

definition suburb_is :: "string \<Rightarrow> df_row \<Rightarrow> bool" where
  "suburb_is suburb_name r =
     (case df_suburb r of None \<Rightarrow> False | Some s \<Rightarrow> py_upper s = py_upper suburb_name)"

definition price_gt0 :: "df_row \<Rightarrow> bool" where
  "price_gt0 r = (case df_price_per_m2 r of None \<Rightarrow> False | Some v \<Rightarrow> v > 0)"

definition date_lt :: "df_row \<Rightarrow> int \<Rightarrow> bool" where
  "date_lt r ts = (case df_sold_date_parsed r of None \<Rightarrow> False | Some x \<Rightarrow> x < ts)"

definition date_ge :: "df_row \<Rightarrow> int \<Rightarrow> bool" where
  "date_ge r ts = (case df_sold_date_parsed r of None \<Rightarrow> False | Some x \<Rightarrow> x \<ge> ts)"

text \<open>\<^verbatim>\<open>Series.mean()\<close>, read on exact numbers.\<close>

definition mean :: "real list \<Rightarrow> real" where
  "mean xs = sum_list xs / real (length xs)"

definition compute_rolling_avg_price_per_m2 :: "df_row list \<Rightarrow> int \<Rightarrow> string \<Rightarrow> int \<Rightarrow> real" where
  "compute_rolling_avg_price_per_m2 df current_date suburb_name lookback_days =
     (let cutoff = current_date - timedelta_ns lookback_days;
          subset = [v. r \<leftarrow> df, Some v \<leftarrow> [df_price_per_m2 r],
                      suburb_is suburb_name r \<and> df_price_per_m2 r \<noteq> None \<and> price_gt0 r
                      \<and> date_lt r current_date \<and> date_ge r cutoff]
      in if length subset \<ge> 5 then mean subset
         else
           (let overall_subset = [v. r \<leftarrow> df, Some v \<leftarrow> [df_price_per_m2 r],
                                     df_price_per_m2 r \<noteq> None \<and> price_gt0 r
                                     \<and> date_lt r current_date \<and> date_ge r cutoff]
            in if length overall_subset \<ge> 5 then mean overall_subset else 5000))"

text \<open>
  The words of the specification: the samples that qualify for \<open>(as_of, lookback)\<close> are
  the rows with a known positive price per area and a sale date in the half-open window
  from \<open>lookback\<close> days before \<open>as_of\<close> up to \<open>as_of\<close>; \<open>suburb_samples\<close> are the prices per
  area of those in one suburb, \<open>window_samples\<close> of all of them.
\<close>

definition qualifies :: "int \<Rightarrow> int \<Rightarrow> df_row \<Rightarrow> bool" where
  "qualifies as_of lookback r =
     (case (df_price_per_m2 r, df_sold_date_parsed r) of
        (Some v, Some ts) \<Rightarrow> 0 < v \<and> as_of - timedelta_ns lookback \<le> ts \<and> ts < as_of
      | _ \<Rightarrow> False)"

definition window_samples :: "df_row list \<Rightarrow> int \<Rightarrow> int \<Rightarrow> real list" where
  "window_samples df as_of lookback =
     map (\<lambda>r. case df_price_per_m2 r of Some v \<Rightarrow> v | None \<Rightarrow> 0) (filter (qualifies as_of lookback) df)"

definition suburb_samples :: "df_row list \<Rightarrow> string \<Rightarrow> int \<Rightarrow> int \<Rightarrow> real list" where
  "suburb_samples df suburb_name as_of lookback =
     window_samples (filter (suburb_is suburb_name) df) as_of lookback"

text \<open>A sample sold on day \<open>day\<close> (counted from the epoch) at a price per area.\<close>

definition sample :: "string \<Rightarrow> real \<Rightarrow> int \<Rightarrow> df_row" where
  "sample sub ppm day =
     \<lparr> df_suburb = Some sub, df_price_per_m2 = Some ppm,
       df_sold_date_parsed = Some (timedelta_ns day) \<rparr>"

text \<open>Three sales in one suburb and ten in another, all within 180 days before day 19900.\<close>

definition three_and_ten :: "df_row list" where
  "three_and_ten =
     map (sample ''Baulkham Hills'' 4000) [19800, 19810, 19820]
     @ map (sample ''CASTLE HILL'' 6600) [19750, 19760, 19770, 19780, 19790,
                                           19800, 19810, 19820, 19830, 19840]"

section \<open>Properties of save\_listings\<close>

lemma history_save_listing:
  "listing_history (snd (save_listing t l d)) =
     (if l_status l = ''sold'' then
        if has_sold (listing_history d) (l_id l) then listing_history d
        else insert_row (row_of t l) (listing_history d)
      else insert_or_replace (row_of t l) (listing_history d))"
  by (simp add: save_listing_def split: option.split)

lemma save_listings_snd_Cons:
  "snd (save_listings t (l # ls) d) = snd (save_listings t ls (snd (save_listing t l d)))"
  by (simp add: split_beta Let_def)

lemma row_key_row_of [simp]: "row_key (row_of t l) = (l_id l, t, l_status l)"
  by (simp add: row_key_def row_of_def)

lemma has_sold_insert_row:
  "has_sold (insert_row r hist) pid = (has_sold hist pid \<or> (property_id r = pid \<and> status r = ''sold''))"
  by (auto simp: has_sold_def insert_row_def)

lemma has_sold_insert_or_replace:
  "status r \<noteq> ''sold'' \<Longrightarrow> has_sold (insert_or_replace r hist) pid = has_sold hist pid"
  by (auto simp: has_sold_def insert_or_replace_def row_key_def)

lemma has_sold_save_listing:
  "has_sold (listing_history d) pid \<Longrightarrow> has_sold (listing_history (snd (save_listing t l d))) pid"
  by (simp add: history_save_listing has_sold_insert_row has_sold_insert_or_replace row_of_def)

text \<open>The plain \<^verbatim>\<open>INSERT\<close> of a sold row never meets its key in the table.\<close>

lemma sold_key_fresh:
  "\<not> has_sold hist (l_id l) \<Longrightarrow> l_status l = ''sold'' \<Longrightarrow> row_key (row_of t l) \<notin> row_key ` set hist"
  by (auto simp: has_sold_def row_key_def row_of_def)

lemma distinct_insert_or_replace:
  "distinct (map row_key hist) \<Longrightarrow> distinct (map row_key (insert_or_replace r hist))"
  by (auto simp: insert_or_replace_def distinct_map_filter)

lemma distinct_save_listing:
  assumes "distinct (map row_key (listing_history d))"
  shows "distinct (map row_key (listing_history (snd (save_listing t l d))))"
proof (cases "l_status l = ''sold''")
  case sold: True
  show ?thesis
  proof (cases "has_sold (listing_history d) (l_id l)")
    case True
    with sold assms show ?thesis by (simp add: history_save_listing)
  next
    case False
    from sold_key_fresh [OF False sold, of t] assms sold False show ?thesis
      by (simp add: history_save_listing insert_row_def)
  qed
next
  case False
  with distinct_insert_or_replace [OF assms] show ?thesis
    by (simp add: history_save_listing)
qed

lemma distinct_save_listings:
  "distinct (map row_key (listing_history d)) \<Longrightarrow>
   distinct (map row_key (listing_history (snd (save_listings t ls d))))"
proof (induction ls arbitrary: d)
  case Nil
  then show ?case by simp
next
  case (Cons l ls)
  from Cons.IH [OF distinct_save_listing [OF Cons.prems]] show ?case
    by (simp only: save_listings_snd_Cons)
qed

lemma insert_or_replace_twice:
  "insert_or_replace r (insert_or_replace r hist) = insert_or_replace r hist"
  by (simp add: insert_or_replace_def)

lemma save_listing_again:
  assumes "l_status l \<noteq> ''sold''"
  shows "save_listing t (fst (save_listing t l d)) (snd (save_listing t l d)) = save_listing t l d"
  using assms
  by (cases "properties d (l_id l)")
     (simp_all add: save_listing_def row_of_def insert_or_replace_twice [unfolded row_of_def])

lemma save_listing_again_db:
  assumes "l_status l \<noteq> ''sold''"
  shows "snd (save_listing t l (snd (save_listing t l d))) = snd (save_listing t l d)"
  using assms
  by (cases "properties d (l_id l)")
     (simp_all add: save_listing_def insert_or_replace_twice)

lemma save_listings_single:
  "save_listings t [l] d = ([fst (save_listing t l d)], snd (save_listing t l d))"
  by (simp add: split_beta)

lemma filter_key_le_1:
  "distinct (map f xs) \<Longrightarrow> length (filter (\<lambda>x. f x = k) xs) \<le> 1"
proof (induction xs)
  case Nil
  then show ?case by simp
next
  case (Cons a xs)
  show ?case
  proof (cases "f a = k")
    case True
    have "\<forall>x\<in>set xs. f x \<noteq> k"
      using Cons.prems True by (auto simp: image_iff)
    then have "filter (\<lambda>x. f x = k) xs = []"
      by (simp add: filter_empty_conv)
    with True show ?thesis by simp
  next
    case False
    with Cons show ?thesis by simp
  qed
qed

subsection \<open>C3: sold rows are written once\<close>

text \<open>
  Claim C3. When every listing of a batch has status \<^verbatim>\<open>'sold'\<close> and its property already
  has a \<^verbatim>\<open>'sold'\<close> row (on any date), \<^verbatim>\<open>save_listings\<close> returns normally and leaves the
  whole table \<^verbatim>\<open>listing_history\<close> as it was, whatever the date of the call and the price
  and other attributes of the new records.
\<close>

theorem sold_write_once:
  assumes "\<forall>l\<in>set ls. l_status l = ''sold'' \<and> has_sold (listing_history d) (l_id l)"
  shows "listing_history (snd (save_listings today_str ls d)) = listing_history d"
  using assms
proof (induction ls arbitrary: d)
  case Nil
  show ?case by simp
next
  case (Cons l ls)
  have step: "listing_history (snd (save_listing today_str l d)) = listing_history d"
    using Cons.prems by (simp add: history_save_listing)
  have "listing_history (snd (save_listings today_str ls (snd (save_listing today_str l d))))
          = listing_history (snd (save_listing today_str l d))"
    using Cons.prems by (intro Cons.IH) (simp add: step)
  with step show ?case by (simp only: save_listings_snd_Cons)
qed

text \<open>The ledger of the example, and a second sale of \<^verbatim>\<open>P9\<close> at another price on another day.\<close>

lemma sold_example_history:
  "listing_history sold_example = [row_of ''2024-01-15'' (listing ''P9'' ''sold'' ''$1,200,000'' 1200000)]"
  by (simp add: sold_example_def empty_db_def save_listing_def listing_def has_sold_def insert_row_def)

theorem sold_write_once_witness:
  "l_status (listing ''P9'' ''sold'' ''$1,350,000'' 1350000) = ''sold''
   \<and> has_sold (listing_history sold_example)
         (l_id (listing ''P9'' ''sold'' ''$1,350,000'' 1350000))
   \<and> listing_history (snd (save_listings ''2024-03-01''
         [listing ''P9'' ''sold'' ''$1,350,000'' 1350000] sold_example))
       = [row_of ''2024-01-15'' (listing ''P9'' ''sold'' ''$1,200,000'' 1200000)]"
  using sold_write_once [of "[listing ''P9'' ''sold'' ''$1,350,000'' 1350000]" sold_example "''2024-03-01''"]
  by (simp add: sold_example_history has_sold_def row_of_def listing_def)

subsection \<open>C6: for-sale rows are upserted\<close>

text \<open>
  Claim C6. For a listing whose status is not \<^verbatim>\<open>'sold'\<close> (the branch of the for-sale
  records), saving it a second time on the same day leaves the database as the first call
  left it, both with the listing object as the first call returned it and with the listing
  as it was given; and where the primary key was unique before, it is unique after, so a
  property has at most one row per date and status.
\<close>

theorem for_sale_upsert_idempotent:
  assumes "l_status l \<noteq> ''sold''"
  shows "save_listings t (fst (save_listings t [l] d)) (snd (save_listings t [l] d))
           = save_listings t [l] d
         \<and> snd (save_listings t [l] (snd (save_listings t [l] d))) = snd (save_listings t [l] d)
         \<and> (distinct (map row_key (listing_history d)) \<longrightarrow>
              (\<forall>k. length (filter (\<lambda>x. row_key x = k)
                      (listing_history (snd (save_listings t [l] d)))) \<le> 1))"
proof (intro conjI impI allI)
  show "save_listings t (fst (save_listings t [l] d)) (snd (save_listings t [l] d))
          = save_listings t [l] d"
    unfolding save_listings_single fst_conv snd_conv
    by (simp only: save_listing_again [OF assms])
  show "snd (save_listings t [l] (snd (save_listings t [l] d))) = snd (save_listings t [l] d)"
    unfolding save_listings_single fst_conv snd_conv
    by (simp only: save_listing_again_db [OF assms])
next
  fix k
  assume "distinct (map row_key (listing_history d))"
  then have "distinct (map row_key (listing_history (snd (save_listings t [l] d))))"
    by (rule distinct_save_listings)
  then show "length (filter (\<lambda>x. row_key x = k) (listing_history (snd (save_listings t [l] d)))) \<le> 1"
    by (rule filter_key_le_1)
qed


theorem for_sale_upsert_idempotent_witness:
  "l_status (listing ''P1'' ''sale'' ''$1,000,000'' 1000000) \<noteq> ''sold''
   \<and> distinct (map row_key (listing_history empty_db))
   \<and> snd (save_listings ''2024-01-01'' [listing ''P1'' ''sale'' ''$1,000,000'' 1000000]
          (snd (save_listings ''2024-01-01'' [listing ''P1'' ''sale'' ''$1,000,000'' 1000000]
             empty_db)))
       = snd (save_listings ''2024-01-01'' [listing ''P1'' ''sale'' ''$1,000,000'' 1000000]
           empty_db)
   \<and> length (filter (\<lambda>x. row_key x = (''P1'', ''2024-01-01'', ''sale''))
         (listing_history (snd (save_listings ''2024-01-01''
            [listing ''P1'' ''sale'' ''$1,000,000'' 1000000] empty_db)))) \<le> 1"
  using for_sale_upsert_idempotent
    [of "listing ''P1'' ''sale'' ''$1,000,000'' 1000000" "''2024-01-01''" empty_db]
  by (simp add: listing_def empty_db_def)

section \<open>Properties of the two change classifiers\<close>

subsection \<open>The queries and the loop, as sets\<close>

lemma sql_max_None: "sql_max xs = None \<longleftrightarrow> xs = []"
  by (induction xs) (auto split: option.splits)

lemma sql_max_SomeD: "sql_max xs = Some m \<Longrightarrow> m \<in> set xs \<and> (\<forall>x\<in>set xs. x \<le> m)"
proof (induction xs arbitrary: m)
  case Nil
  then show ?case by simp
next
  case (Cons a xs)
  show ?case
  proof (cases "sql_max xs")
    case None
    with Cons.prems show ?thesis by (simp add: sql_max_None)
  next
    case (Some k)
    from Cons.IH [OF Some] have k: "k \<in> set xs" "\<forall>x\<in>set xs. x \<le> k" by simp_all
    from Cons.prems Some have m: "m = max a k" by simp
    show ?thesis
    proof (cases "a \<le> k")
      case True
      with m k show ?thesis by (auto simp: max_def)
    next
      case False
      with m k show ?thesis by (fastforce simp: max_def)
    qed
  qed
qed

lemma sql_max_SomeI:
  assumes "m \<in> set xs" and "\<forall>x\<in>set xs. x \<le> m"
  shows "sql_max xs = Some m"
proof (cases "sql_max xs")
  case None
  with assms show ?thesis by (simp add: sql_max_None)
next
  case (Some k)
  from sql_max_SomeD [OF Some] assms have "k \<le> m" "m \<le> k" by auto
  with Some show ?thesis by simp
qed

lemma set_join_property: "p \<in> set (join_property d h) \<longleftrightarrow> properties d (property_id h) = Some p"
  by (auto simp: join_property_def split: option.splits)

lemma set_status_pairs:
  "c \<in> set (status_pairs d st t pd) \<longleftrightarrow>
     (\<exists>n p q. n \<in> set (listing_history d) \<and> properties d (property_id n) = Some p
        \<and> q \<in> set (listing_history d) \<and> property_id n = property_id q
        \<and> date n = t \<and> status n = st \<and> date q = pd \<and> status q = ''sale''
        \<and> c = pair_row n p q)"
  unfolding status_pairs_def by (simp add: Bex_def set_join_property)

lemma prev_dateD:
  assumes "prev_date hist t = Some pd"
  shows "pd < t" and "\<exists>x\<in>set hist. date x = pd" and "\<forall>x\<in>set hist. date x < t \<longrightarrow> date x \<le> pd"
  using sql_max_SomeD [OF assms [unfolded prev_date_def]] by auto

lemma prev_date_ofI:
  assumes "q \<in> set hist" "property_id q = pid" "date q < t"
    and "\<forall>x\<in>set hist. property_id x = pid \<and> date x < t \<longrightarrow> date x \<le> date q"
  shows "prev_date_of hist pid t = Some (date q)"
  unfolding prev_date_of_def using assms by (intro sql_max_SomeI) auto



lemma in_guide_loop:
  "c \<in> set (guide_revealed (price_loop rows r)) \<longleftrightarrow>
     c \<in> set (guide_revealed r)
     \<or> (c \<in> set rows \<and> display_changed c \<and> old_val c = 0 \<and> 0 < new_val c)"
proof (induction rows arbitrary: r)
  case Nil
  show ?case by simp
next
  case (Cons d rows)
  show ?case
    unfolding price_loop.simps Let_def
    by (auto simp: Cons.IH display_changed_def norm_display_def old_val_def new_val_def)
qed

lemma in_price_loop:
  "c \<in> set (price_changes (price_loop rows r)) \<longleftrightarrow>
     c \<in> set (price_changes r)
     \<or> (\<exists>d\<in>set rows. display_changed d
          \<and> (0 < old_val d \<and> 0 < new_val d \<and> old_val d \<noteq> new_val d
               \<and> c = d\<lparr>price_diff := Some (new_val d - old_val d)\<rparr>
              \<or> new_val d = 0 \<and> 0 < old_val d \<and> c = d))"
proof (induction rows arbitrary: r)
  case Nil
  show ?case by simp
next
  case (Cons d rows)
  show ?case
    unfolding price_loop.simps Let_def
    by (auto simp: Cons.IH display_changed_def norm_display_def old_val_def new_val_def)
qed

lemma comp_price_changes_eq:
  "price_changes (get_comprehensive_daily_changes d t) =
     (case prev_date (listing_history d) t of
        None \<Rightarrow> []
      | Some pd \<Rightarrow>
          if pd = [] then []
          else price_changes (price_loop (status_pairs d ''sale'' t pd)
                 \<lparr> new = [plain_row h p. h \<leftarrow> listing_history d, p \<leftarrow> join_property d h,
                            date h = t \<and> p_first_seen p = t],
                   sold = status_pairs d ''sold'' t pd,
                   disappeared =
                     [plain_row h_prev p. h_prev \<leftarrow> listing_history d, p \<leftarrow> join_property d h_prev,
                        date h_prev = pd \<and> status h_prev = ''sale''
                        \<and> \<not> (\<exists>h_now \<in> set (listing_history d).
                                property_id h_now = property_id h_prev \<and> date h_now = t)],
                   price_changes = [], guide_revealed = [] \<rparr>))"
  by (simp add: get_comprehensive_daily_changes_def Let_def split: option.split)

lemma comp_guide_revealed_eq:
  "guide_revealed (get_comprehensive_daily_changes d t) =
     (case prev_date (listing_history d) t of
        None \<Rightarrow> []
      | Some pd \<Rightarrow>
          if pd = [] then []
          else guide_revealed (price_loop (status_pairs d ''sale'' t pd)
                 \<lparr> new = [plain_row h p. h \<leftarrow> listing_history d, p \<leftarrow> join_property d h,
                            date h = t \<and> p_first_seen p = t],
                   sold = status_pairs d ''sold'' t pd,
                   disappeared =
                     [plain_row h_prev p. h_prev \<leftarrow> listing_history d, p \<leftarrow> join_property d h_prev,
                        date h_prev = pd \<and> status h_prev = ''sale''
                        \<and> \<not> (\<exists>h_now \<in> set (listing_history d).
                                property_id h_now = property_id h_prev \<and> date h_now = t)],
                   price_changes = [], guide_revealed = [] \<rparr>))"
  by (simp add: get_comprehensive_daily_changes_def Let_def split: option.split)

lemma in_comp_price_changes:
  "c \<in> set (price_changes (get_comprehensive_daily_changes d t)) \<longleftrightarrow>
     (\<exists>pd. prev_date (listing_history d) t = Some pd \<and> pd \<noteq> []
        \<and> (\<exists>r\<in>set (status_pairs d ''sale'' t pd). display_changed r
              \<and> (0 < old_val r \<and> 0 < new_val r \<and> old_val r \<noteq> new_val r
                   \<and> c = r\<lparr>price_diff := Some (new_val r - old_val r)\<rparr>
                  \<or> new_val r = 0 \<and> 0 < old_val r \<and> c = r)))"
  by (cases "prev_date (listing_history d) t") (auto simp: comp_price_changes_eq in_price_loop)

lemma in_comp_guide_revealed:
  "c \<in> set (guide_revealed (get_comprehensive_daily_changes d t)) \<longleftrightarrow>
     (\<exists>pd. prev_date (listing_history d) t = Some pd \<and> pd \<noteq> []
        \<and> c \<in> set (status_pairs d ''sale'' t pd) \<and> display_changed c
        \<and> old_val c = 0 \<and> 0 < new_val c)"
  by (cases "prev_date (listing_history d) t") (auto simp: comp_guide_revealed_eq in_guide_loop)

lemma pair_row_sel [simp]:
  "c_hrow (pair_row n p q) = n"
  "c_old_price (pair_row n p q) = Some (price_display q)"
  "c_old_price_value (pair_row n p q) = Some (price_value q)"
  "price_diff (pair_row n p q) = None"
  by (simp_all add: pair_row_def)

lemma or_empty_Some [simp]: "or_empty (Some s) = s"
  by (simp add: or_empty_def)

lemma or_zero_Some [simp]: "or_zero (Some n) = n"
  by (simp add: or_zero_def)

lemma display_changed_pair:
  "display_changed (pair_row n p q) \<longleftrightarrow> norm_display (price_display q) \<noteq> norm_display (price_display n)"
  by (simp add: display_changed_def)

lemma vals_pair [simp]:
  "old_val (pair_row n p q) = price_value q" "new_val (pair_row n p q) = price_value n"
  by (simp_all add: old_val_def new_val_def)

text \<open>A row of either fine list comes from a pair of for-sale rows on the two dates.\<close>

lemma fine_change_pair:
  assumes "c \<in> set (price_changes (get_comprehensive_daily_changes d t))
             \<union> set (guide_revealed (get_comprehensive_daily_changes d t))"
  shows "\<exists>pd n p q. prev_date (listing_history d) t = Some pd \<and> pd \<noteq> []
           \<and> n \<in> set (listing_history d) \<and> properties d (property_id n) = Some p
           \<and> q \<in> set (listing_history d) \<and> property_id n = property_id q
           \<and> date n = t \<and> status n = ''sale'' \<and> date q = pd \<and> status q = ''sale''
           \<and> norm_display (price_display q) \<noteq> norm_display (price_display n)
           \<and> c_hrow c = n \<and> c_old_price c = Some (price_display q)
           \<and> c_old_price_value c = Some (price_value q)"
proof -
  from assms obtain pd r where pd: "prev_date (listing_history d) t = Some pd" "pd \<noteq> []"
    and r: "r \<in> set (status_pairs d ''sale'' t pd)" "display_changed r"
    and c: "c = r \<or> c = r\<lparr>price_diff := Some (new_val r - old_val r)\<rparr>"
    by (auto simp: in_comp_price_changes in_comp_guide_revealed)
  from r(1) obtain n p q where npq: "n \<in> set (listing_history d)"
      "properties d (property_id n) = Some p" "q \<in> set (listing_history d)"
      "property_id n = property_id q" "date n = t" "status n = ''sale''" "date q = pd"
      "status q = ''sale''" "r = pair_row n p q"
    by (auto simp: set_status_pairs)
  from r(2) npq(9) have "norm_display (price_display q) \<noteq> norm_display (price_display n)"
    by (simp add: display_changed_pair)
  moreover from c npq(9) have "c_hrow c = n \<and> c_old_price c = Some (price_display q)
      \<and> c_old_price_value c = Some (price_value q)"
    by auto
  ultimately show ?thesis using pd npq by blast
qed

lemma key_unique:
  assumes "distinct (map row_key hist)" "a \<in> set hist" "b \<in> set hist" "row_key a = row_key b"
  shows "a = b"
  using assms by (meson distinct_map inj_onD)

lemma norm_display_neq:
  "norm_display a \<noteq> norm_display b \<Longrightarrow> a \<noteq> b"
  by auto

lemma in_daily_adjustment:
  assumes "n \<in> set (listing_history d)" "properties d (property_id n) = Some p"
    "q \<in> set (listing_history d)" "property_id n = property_id q" "date n = t"
    "prev_date_of (listing_history d) (property_id n) t = Some (date q)" "differs n q"
  shows "adjustment_change n p q \<in> set (get_daily_changes d t)"
  using assms
  unfolding get_daily_changes_def Let_def
  by (simp add: Bex_def set_join_property) metis










subsection \<open>The example ledgers, evaluated\<close>

lemma two_days_keys: "distinct (map row_key (listing_history two_days))"
  by code_simp


lemma two_days_price_ids: "price_change_ids two_days ''2024-01-02'' = {''P1'', ''P3''}"
  by code_simp

lemma two_days_guide_ids: "guide_revealed_ids two_days ''2024-01-02'' = {''P2''}"
  by code_simp

lemma two_days_latest:
  "latest_sale_before (listing_history two_days)
     (row_of ''2024-01-01'' (listing ''P4'' ''sale'' ''Offers over $1,500,000'' 1500000))
     ''2024-01-02''"
  by code_simp

lemma two_days_norm:
  "norm_display ''Offers over $1,500,000'' = norm_display ''OFFERS OVER $1,500,000 ''"
  by code_simp

lemma two_days_members:
  "row_of ''2024-01-02'' (listing ''P4'' ''sale'' ''OFFERS OVER $1,500,000 '' 1500000)
     \<in> set (listing_history two_days)"
  "row_of ''2024-01-02'' (listing ''P2'' ''sale'' ''Auction Guide $900,000'' 900000)
     \<in> set (listing_history two_days)"
  "row_of ''2024-01-01'' (listing ''P2'' ''sale'' ''Auction'' 0)
     \<in> set (listing_history two_days)"
  "row_of ''2024-01-02'' (listing ''P3'' ''sale'' ''Contact Agent'' 0)
     \<in> set (listing_history two_days)"
  "row_of ''2024-01-01'' (listing ''P3'' ''sale'' ''$900,000'' 900000)
     \<in> set (listing_history two_days)"
  by code_simp+



lemma two_days_guide_row:
  "pair_row (row_of ''2024-01-02'' (listing ''P2'' ''sale'' ''Auction Guide $900,000'' 900000))
     \<lparr> p_address = ''1 Example St'', p_suburb = ''CASTLE HILL'',
       p_first_seen = ''2024-01-01'', p_url = ''u'', p_in_excelsior_catchment = 0 \<rparr>
     (row_of ''2024-01-01'' (listing ''P2'' ''sale'' ''Auction'' 0))
   \<in> set (guide_revealed (get_comprehensive_daily_changes two_days ''2024-01-02''))"
  by code_simp


subsection \<open>C2: what a snapshot is compared with\<close>




subsection \<open>C4: a revealed guide is not a price change\<close>



subsection \<open>C5: the coarse list covers the price lists\<close>

text \<open>
  Claim C5. For every target date, a row that \<^verbatim>\<open>get_comprehensive_daily_changes\<close> puts in
  \<^verbatim>\<open>price_changes\<close> or \<^verbatim>\<open>guide_revealed\<close> has an \<^verbatim>\<open>ADJUSTMENT\<close> in the list of
  \<^verbatim>\<open>get_daily_changes\<close> for the same date, for the same row of the target date and against
  the same old display price.
\<close>

theorem fine_changes_are_adjustments:
  assumes "c \<in> set (price_changes (get_comprehensive_daily_changes d t))
             \<union> set (guide_revealed (get_comprehensive_daily_changes d t))"
  shows "\<exists>a\<in>set (get_daily_changes d t).
           ctype a = ADJUSTMENT \<and> hrow a = c_hrow c \<and> old_price a = c_old_price c"
proof -
  from fine_change_pair [OF assms] obtain pd n p q where
    pd: "prev_date (listing_history d) t = Some pd" and
    n: "n \<in> set (listing_history d)" "properties d (property_id n) = Some p"
       "date n = t" and
    q: "q \<in> set (listing_history d)" "property_id n = property_id q" "date q = pd" and
    ne: "norm_display (price_display q) \<noteq> norm_display (price_display n)" and
    c: "c_hrow c = n" "c_old_price c = Some (price_display q)"
    by blast
  from prev_dateD [OF pd] q(3) have lt: "date q < t"
    and mx: "\<forall>x\<in>set (listing_history d). date x < t \<longrightarrow> date x \<le> date q"
    by simp_all
  have "prev_date_of (listing_history d) (property_id n) t = Some (date q)"
    using q(1) q(2) lt mx by (intro prev_date_ofI) auto
  moreover from ne have "differs n q"
    by (auto simp: differs_def)
  ultimately have "adjustment_change n p q \<in> set (get_daily_changes d t)"
    using n q by (intro in_daily_adjustment) auto
  moreover have "ctype (adjustment_change n p q) = ADJUSTMENT"
    "hrow (adjustment_change n p q) = c_hrow c"
    "old_price (adjustment_change n p q) = c_old_price c"
    using c by (simp_all add: adjustment_change_def)
  ultimately show ?thesis by blast
qed

theorem fine_changes_are_adjustments_witness:
  "pair_row (row_of ''2024-01-02'' (listing ''P2'' ''sale'' ''Auction Guide $900,000'' 900000))
     \<lparr> p_address = ''1 Example St'', p_suburb = ''CASTLE HILL'',
       p_first_seen = ''2024-01-01'', p_url = ''u'', p_in_excelsior_catchment = 0 \<rparr>
     (row_of ''2024-01-01'' (listing ''P2'' ''sale'' ''Auction'' 0))
     \<in> set (price_changes (get_comprehensive_daily_changes two_days ''2024-01-02''))
         \<union> set (guide_revealed (get_comprehensive_daily_changes two_days ''2024-01-02''))
   \<and> (\<exists>a\<in>set (get_daily_changes two_days ''2024-01-02'').
         ctype a = ADJUSTMENT
         \<and> hrow a = row_of ''2024-01-02''
                      (listing ''P2'' ''sale'' ''Auction Guide $900,000'' 900000)
         \<and> old_price a = Some ''Auction'')"
proof -
  have m: "pair_row (row_of ''2024-01-02'' (listing ''P2'' ''sale'' ''Auction Guide $900,000'' 900000))
     \<lparr> p_address = ''1 Example St'', p_suburb = ''CASTLE HILL'',
       p_first_seen = ''2024-01-01'', p_url = ''u'', p_in_excelsior_catchment = 0 \<rparr>
     (row_of ''2024-01-01'' (listing ''P2'' ''sale'' ''Auction'' 0))
     \<in> set (price_changes (get_comprehensive_daily_changes two_days ''2024-01-02''))
         \<union> set (guide_revealed (get_comprehensive_daily_changes two_days ''2024-01-02''))"
    using two_days_guide_row by simp
  from fine_changes_are_adjustments [OF m] m show ?thesis
    by (simp add: row_of_def listing_def)
qed

subsection \<open>C7: letter case and surrounding whitespace are no price change\<close>

lemma same_display_aux:
  assumes keys: "distinct (map row_key (listing_history d))"
    and now: "h_now \<in> set (listing_history d)" "date h_now = t" "status h_now = ''sale''"
    and prev: "h_prev \<in> set (listing_history d)" "property_id h_prev = property_id h_now"
      "status h_prev = ''sale''" "date h_prev < t"
    and latest: "\<forall>x\<in>set (listing_history d).
       property_id x = property_id h_now \<and> status x = ''sale'' \<and> date x < t
         \<longrightarrow> date x \<le> date h_prev"
    and same: "norm_display (price_display h_prev) = norm_display (price_display h_now)"
  shows "\<forall>c\<in>set (price_changes (get_comprehensive_daily_changes d t)).
           property_id (c_hrow c) \<noteq> property_id h_now"
proof
  fix c
  assume c: "c \<in> set (price_changes (get_comprehensive_daily_changes d t))"
  show "property_id (c_hrow c) \<noteq> property_id h_now"
  proof
    assume pid: "property_id (c_hrow c) = property_id h_now"
    from c have "c \<in> set (price_changes (get_comprehensive_daily_changes d t))
             \<union> set (guide_revealed (get_comprehensive_daily_changes d t))" by simp
    from fine_change_pair [OF this] obtain pd n p q where
      pd: "prev_date (listing_history d) t = Some pd" and
      n: "n \<in> set (listing_history d)" "date n = t" "status n = ''sale''" and
      q: "q \<in> set (listing_history d)" "property_id n = property_id q" "date q = pd"
         "status q = ''sale''" and
      ne: "norm_display (price_display q) \<noteq> norm_display (price_display n)" and
      cn: "c_hrow c = n"
      by blast
    from pid cn have pn: "property_id n = property_id h_now" by simp
    have "n = h_now"
      using keys n(1) now(1) pn n(2,3) now(2,3)
      by (intro key_unique [of "listing_history d"]) (simp_all add: row_key_def)
    from prev_dateD [OF pd] q(3) have qlt: "date q < t"
      and mx: "\<forall>x\<in>set (listing_history d). date x < t \<longrightarrow> date x \<le> date q"
      by simp_all
    from latest q(1) q(2) q(4) pn qlt have "date q \<le> date h_prev" by auto
    moreover from mx prev(1) prev(4) have "date h_prev \<le> date q" by auto
    ultimately have "date q = date h_prev" by simp
    then have "q = h_prev"
      using keys q(1) prev(1) q(2) pn prev(2) q(4) prev(3)
      by (intro key_unique [of "listing_history d"]) (simp_all add: row_key_def)
    with ne same \<open>n = h_now\<close> show False by simp
  qed
qed

text \<open>
  Claim C7. When the for-sale row of a property on the target date and the latest for-sale
  row of that property before it have display strings that are equal after \<^verbatim>\<open>strip\<close> and
  \<^verbatim>\<open>lower\<close>, the property is not in \<^verbatim>\<open>price_changes\<close>: the loop compares the normalized
  strings first and goes on to the next row when they are equal.
\<close>

theorem same_display_no_price_change:
  assumes keys: "distinct (map row_key (listing_history d))"
    and now: "h_now \<in> set (listing_history d)" "date h_now = t" "status h_now = ''sale''"
    and prev: "latest_sale_before (listing_history d) h_prev t"
      "property_id h_prev = property_id h_now"
    and same: "norm_display (price_display h_prev) = norm_display (price_display h_now)"
  shows "property_id h_now \<notin> price_change_ids d t"
proof -
  from prev have "\<forall>x\<in>set (listing_history d).
       property_id x = property_id h_now \<and> status x = ''sale'' \<and> date x < t
         \<longrightarrow> date x \<le> date h_prev"
    by (simp add: latest_sale_before_def)
  from same_display_aux [OF keys now _ prev(2) _ _ this same] prev(1)
  show ?thesis
    by (auto simp: price_change_ids_def latest_sale_before_def)
qed

theorem same_display_no_price_change_witness:
  "distinct (map row_key (listing_history two_days))
   \<and> row_of ''2024-01-02'' (listing ''P4'' ''sale'' ''OFFERS OVER $1,500,000 '' 1500000)
       \<in> set (listing_history two_days)
   \<and> latest_sale_before (listing_history two_days)
       (row_of ''2024-01-01'' (listing ''P4'' ''sale'' ''Offers over $1,500,000'' 1500000))
       ''2024-01-02''
   \<and> norm_display ''Offers over $1,500,000'' = norm_display ''OFFERS OVER $1,500,000 ''
   \<and> ''P4'' \<notin> price_change_ids two_days ''2024-01-02''"
  using
    same_display_no_price_change [OF two_days_keys,
      of "row_of ''2024-01-02'' (listing ''P4'' ''sale'' ''OFFERS OVER $1,500,000 '' 1500000)"
         "''2024-01-02''"
         "row_of ''2024-01-01'' (listing ''P4'' ''sale'' ''Offers over $1,500,000'' 1500000)"]
    two_days_keys two_days_members two_days_latest two_days_norm
  by (simp add: row_of_def listing_def)

section \<open>Properties of the accuracy report\<close>

text \<open>
  The call returns the report of the database when \<^verbatim>\<open>cutoff_date\<close> can be computed, and
  raises otherwise.
\<close>

lemma report_cases:
  "get_prediction_accuracy_report now days_back d =
     (if cutoff_representable now days_back then Inr (report_of d) else Inl OverflowError)"
  by (auto simp: get_prediction_accuracy_report_def timedelta_days_def datetime_sub_def
      cutoff_representable_def)

text \<open>Every sold row with a positive price is a row of the first query.\<close>

lemma in_sold_properties:
  assumes "h \<in> set (listing_history d)" "properties d (property_id h) = Some p"
    "status h = ''sold''" "0 < price_value h"
  shows "sold_row_of h p \<in> set (sold_properties d)"
  using assms unfolding sold_properties_def
  by (simp add: Bex_def set_join_property) blast

subsection \<open>C1: estimates and predictions made after the sale\<close>

text \<open>
  Claim C1 (no look-ahead in the accuracy report). For property \<^verbatim>\<open>P7\<close>, sold on
  2024-06-01 at 1,000,000, with third-party estimates of 2024-05-20 (980,000) and
  2024-06-05 (950,000) and a model prediction of 2024-06-10 (1,020,000), the report has
  one comparison; its third-party error is computed from the estimate of 2024-06-05
  (\<open>-5\<close> per cent, not the \<open>-2\<close> per cent of the estimate of 2024-05-20), and its model
  error from the prediction of 2024-06-10: both were made after the sale.
\<close>

theorem look_ahead_estimate_used:
  "get_prediction_accuracy_report 739068 365 look_ahead_db = Inr (report_of look_ahead_db)
   \<and> map cmp_sold_date_iso (comparisons (report_of look_ahead_db)) = [''2024-06-01'']
   \<and> map domain_estimate (comparisons (report_of look_ahead_db)) = [Some 950000]
   \<and> map domain_date (comparisons (report_of look_ahead_db)) = [Some ''2024-06-05'']
   \<and> map domain_error_pct (comparisons (report_of look_ahead_db)) = [Some (- 5)]
   \<and> map xgboost_date (comparisons (report_of look_ahead_db)) = [Some ''2024-06-10'']
   \<and> map xgboost_error_pct (comparisons (report_of look_ahead_db)) = [Some 2]"
  by code_simp

subsection \<open>C8: the listed price of a sold property\<close>

text \<open>
  Claim C8 (the listed price is the last asking price before the sale). For property
  \<^verbatim>\<open>P8\<close>, for sale at 1,000,000 on 2024-05-30, sold at 1,050,000 with capture date
  2024-06-01 and seen for sale at 1,100,000 on 2024-06-03, the listed price of the report
  is the 1,100,000 of the row of 2024-06-03, a row dated after the capture date of the
  sale, and the listed error is 4.8 per cent (against 1,000,000 it would be \<open>-4.8\<close>).
\<close>

theorem listed_price_after_sale:
  "get_prediction_accuracy_report 739068 365 relisted_db = Inr (report_of relisted_db)
   \<and> map s_record_date (sold_properties relisted_db) = [''2024-06-01'']
   \<and> map listed_price (comparisons (report_of relisted_db)) = [Some 1100000]
   \<and> map listed_display (comparisons (report_of relisted_db)) = [Some ''$1,100,000'']
   \<and> map listed_error_pct (comparisons (report_of relisted_db)) = [Some (24 / 5)]
   \<and> row_of ''2024-06-03'' (listing ''P8'' ''sale'' ''$1,100,000'' 1100000)
       \<in> set (listing_history relisted_db)
   \<and> row_of ''2024-05-30'' (listing ''P8'' ''sale'' ''$1,000,000'' 1000000)
       \<in> set (listing_history relisted_db)"
  by code_simp

subsection \<open>C10: the parameter days\_back\<close>

text \<open>
  With \<^verbatim>\<open>days_back\<close> of 365 the call returns the report; with 1000000000 it raises
  \<^verbatim>\<open>OverflowError\<close> on the same database.
\<close>

theorem days_back_overflow_counterexample:
  "get_prediction_accuracy_report 739068 365 look_ahead_db = Inr (report_of look_ahead_db)
   \<and> get_prediction_accuracy_report 739068 1000000000 look_ahead_db = Inl OverflowError"
  by (simp add: report_cases cutoff_representable_def)

text \<open>
  Claim C10 (\<^verbatim>\<open>days_back\<close> has no effect on the report). For every database and any two
  values of \<^verbatim>\<open>days_back\<close> for which \<^verbatim>\<open>cutoff_date\<close> is a date, the two calls return the
  same comparisons and statistics, those of \<^const>\<open>report_of\<close>, which does not read
  \<^verbatim>\<open>days_back\<close>; for any other value the call raises \<^verbatim>\<open>OverflowError\<close>. Every sold row with
  a positive price whose property is known is among the sold rows of the report, whatever
  its date.
\<close>

theorem days_back_has_no_effect:
  "(cutoff_representable now d1 \<and> cutoff_representable now d2 \<longrightarrow>
      get_prediction_accuracy_report now d1 d = get_prediction_accuracy_report now d2 d
      \<and> get_prediction_accuracy_report now d1 d = Inr (report_of d))
   \<and> (\<not> cutoff_representable now d1 \<longrightarrow>
        get_prediction_accuracy_report now d1 d = Inl OverflowError)
   \<and> (h \<in> set (listing_history d) \<and> properties d (property_id h) = Some p
        \<and> status h = ''sold'' \<and> 0 < price_value h
      \<longrightarrow> sold_row_of h p \<in> set (sold_properties d))"
  by (simp add: report_cases in_sold_properties)

theorem days_back_has_no_effect_witness:
  "cutoff_representable 739068 365 \<and> cutoff_representable 739068 30
   \<and> get_prediction_accuracy_report 739068 365 look_ahead_db
       = get_prediction_accuracy_report 739068 30 look_ahead_db"
  using days_back_has_no_effect [of 739068 365 30 look_ahead_db]
  by (simp add: cutoff_representable_def)

section \<open>Properties of the rolling average\<close>

text \<open>The two selections of the function are the samples of the statement.\<close>

lemma overall_subset_eq:
  "[v. r \<leftarrow> df, Some v \<leftarrow> [df_price_per_m2 r],
      df_price_per_m2 r \<noteq> None \<and> price_gt0 r \<and> date_lt r t \<and> date_ge r (t - timedelta_ns n)]
     = window_samples df t n"
  by (induction df)
    (auto simp: window_samples_def qualifies_def price_gt0_def date_lt_def date_ge_def
      split: option.splits)

lemma subset_eq:
  "[v. r \<leftarrow> df, Some v \<leftarrow> [df_price_per_m2 r],
      suburb_is s r \<and> df_price_per_m2 r \<noteq> None \<and> price_gt0 r \<and> date_lt r t
      \<and> date_ge r (t - timedelta_ns n)]
     = suburb_samples df s t n"
  by (induction df)
    (auto simp: suburb_samples_def window_samples_def qualifies_def price_gt0_def date_lt_def
      date_ge_def split: option.splits)

lemma three_and_ten_samples:
  "length (suburb_samples three_and_ten ''BAULKHAM HILLS'' (timedelta_ns 19900) 180) = 3"
  "length (window_samples three_and_ten (timedelta_ns 19900) 180) = 13"
  "mean (window_samples three_and_ten (timedelta_ns 19900) 180) = 6000"
  "mean (suburb_samples three_and_ten ''BAULKHAM HILLS'' (timedelta_ns 19900) 180) = 4000"
  by code_simp+

subsection \<open>C9: the fallback of the rolling average\<close>

text \<open>
  Claim C9 (rolling average with fallback). The rolling average for a suburb and a date
  is the mean of the qualifying samples of the suburb in the window of \<open>n\<close> days before
  the date (180 by default) when there are at least 5 of them; with fewer, the mean of
  the qualifying samples of all suburbs in the same window when there are at least 5 of
  those; and 5000 otherwise.
\<close>

theorem rolling_avg_fallback:
  "(5 \<le> length (suburb_samples df s t n) \<longrightarrow>
      compute_rolling_avg_price_per_m2 df t s n = mean (suburb_samples df s t n))
   \<and> (length (suburb_samples df s t n) < 5 \<and> 5 \<le> length (window_samples df t n) \<longrightarrow>
        compute_rolling_avg_price_per_m2 df t s n = mean (window_samples df t n))
   \<and> (length (suburb_samples df s t n) < 5 \<and> length (window_samples df t n) < 5 \<longrightarrow>
        compute_rolling_avg_price_per_m2 df t s n = 5000)"
  unfolding compute_rolling_avg_price_per_m2_def Let_def subset_eq overall_subset_eq
  by simp

text \<open>
  Three samples in one suburb and ten in another: the average asked for the first suburb
  is the mean of all thirteen, 6000, not the 4000 of its own three.
\<close>

theorem rolling_avg_fallback_witness:
  "length (suburb_samples three_and_ten ''BAULKHAM HILLS'' (timedelta_ns 19900) 180) < 5
   \<and> 5 \<le> length (window_samples three_and_ten (timedelta_ns 19900) 180)
   \<and> compute_rolling_avg_price_per_m2 three_and_ten (timedelta_ns 19900) ''BAULKHAM HILLS'' 180
       = 6000
   \<and> mean (suburb_samples three_and_ten ''BAULKHAM HILLS'' (timedelta_ns 19900) 180) = 4000"
  using rolling_avg_fallback
    [of three_and_ten "''BAULKHAM HILLS''" "timedelta_ns 19900" 180]
  by (simp add: three_and_ten_samples)

end
